theory Spec2Isabelle
  imports Complex_Main
begin

section \<open>Strings and numbers of the source language\<close>

text \<open>
  Python strings are modelled as \<open>string\<close> over the ASCII range. \<open>str.strip()\<close> removes
  the leading and the trailing whitespace characters (for ASCII: space, the control
  characters 9 to 13 and 28 to 31); \<open>str.lower()\<close> maps \<open>A\<close>..\<open>Z\<close> to \<open>a\<close>..\<open>z\<close> and
  keeps every other ASCII character.
\<close>

definition is_space :: "char \<Rightarrow> bool" where
  "is_space c = (let n = (of_char c :: nat) in n = 32 \<or> (9 \<le> n \<and> n \<le> 13) \<or> (28 \<le> n \<and> n \<le> 31))"

definition strip :: "string \<Rightarrow> string" where
  "strip s = rev (dropWhile is_space (rev (dropWhile is_space s)))"

definition lower_char :: "char \<Rightarrow> char" where
  "lower_char c = (let n = (of_char c :: nat) in if 65 \<le> n \<and> n \<le> 90 then char_of (n + 32) else c)"

definition lower :: "string \<Rightarrow> string" where
  "lower s = map lower_char s"

text \<open>
  Numbers: a Python \<open>int\<close> is an \<open>int\<close>; a finite Python \<open>float\<close> is modelled by the
  rational number it denotes, with exact arithmetic (rounding of products, infinities and
  NaN are outside the model). A dynamically typed numeric argument is a \<open>pynum\<close>.
\<close>

datatype pynum = PInt int | PFloat rat

text \<open>\<open>float(x)\<close> on a number; it cannot raise on the numbers of the model.\<close>

fun py_float :: "pynum \<Rightarrow> rat" where
  "py_float (PInt i) = of_int i"
| "py_float (PFloat r) = r"

text \<open>\<open>float.is_integer()\<close>.\<close>

definition is_integer :: "rat \<Rightarrow> bool" where
  "is_integer x = (of_int \<lfloor>x\<rfloor> = x)"

text \<open>\<open>round(x)\<close> of a float: the nearest integer, ties to the even one.\<close>

definition py_round :: "rat \<Rightarrow> int" where
  "py_round x =
     (let f = \<lfloor>x\<rfloor>; d = x - of_int f
      in if d < 1 / 2 then f else if 1 / 2 < d then f + 1 else if even f then f else f + 1)"

text \<open>\<open>int(x)\<close> of a float: truncation toward zero.\<close>

definition py_int :: "rat \<Rightarrow> int" where
  "py_int x = (if 0 \<le> x then \<lfloor>x\<rfloor> else \<lceil>x\<rceil>)"

definition digit_char :: "nat \<Rightarrow> char" where
  "digit_char n = ''0123456789'' ! n"

fun show_nat :: "nat \<Rightarrow> string" where
  "show_nat n = (if n < 10 then [digit_char n] else show_nat (n div 10) @ [digit_char (n mod 10)])"

declare show_nat.simps [simp del]

text \<open>\<open>str(i)\<close> of an int, as an f-string renders it.\<close>

definition show_int :: "int \<Rightarrow> string" where
  "show_int i = (if i < 0 then ''-'' @ show_nat (nat (- i)) else show_nat (nat i))"

text \<open>
  The format \<open>f"{x:.2f}"\<close>: the decimal with two fractional digits nearest to the value,
  ties to even, with the sign of the value.
\<close>

definition format_2f :: "rat \<Rightarrow> string" where
  "format_2f x =
     (let n = nat (py_round (\<bar>x\<bar> * 100))
      in (if x < 0 then ''-'' else '''') @ show_nat (n div 100) @ ''.''
           @ [digit_char (n mod 100 div 10), digit_char (n mod 10)])"

section \<open>Formatting helper (Module8-Portfolio.py)\<close>

text \<open>
  \<open>money_str\<close>: an integral value prints as an integer, any other value with two
  decimals. The \<open>except\<close> branch is for inputs that are not numbers.
\<close>

definition money_str :: "rat \<Rightarrow> string" where
  "money_str x = (if is_integer x then show_int (py_round x) else format_2f x)"

section \<open>ItemToPurchase\<close>

record ItemToPurchase =
  item_name :: string
  item_price :: rat
  item_quantity :: int
  item_description :: string

text \<open>The generated constructor of the dataclass stores its arguments as given.\<close>

definition new_ItemToPurchase :: "string \<Rightarrow> rat \<Rightarrow> int \<Rightarrow> string \<Rightarrow> ItemToPurchase" where
  "new_ItemToPurchase n p q d =
     \<lparr>item_name = n, item_price = p, item_quantity = q, item_description = d\<rparr>"

text \<open>The constructor with every argument left at its default.\<close>

definition default_ItemToPurchase :: ItemToPurchase where
  "default_ItemToPurchase = new_ItemToPurchase ''none'' 0 0 ''none''"

definition total_cost :: "ItemToPurchase \<Rightarrow> rat" where
  "total_cost self =
     (let price = (if item_price self \<ge> 0 then item_price self else 0);
          qty = (if item_quantity self \<ge> 0 then item_quantity self else 0)
      in price * of_int qty)"

text \<open>Printing returns the lines written to standard output.\<close>

definition print_item_cost :: "ItemToPurchase \<Rightarrow> string list" where
  "print_item_cost self =
     (let total = total_cost self
      in [item_name self @ '' '' @ show_int (item_quantity self) @ '' @ $''
            @ money_str (item_price self) @ '' = $'' @ money_str total])"

text \<open>Module6-Portfolio.py prints both amounts through \<open>int\<close>.\<close>

definition print_item_cost_m6 :: "ItemToPurchase \<Rightarrow> string list" where
  "print_item_cost_m6 self =
     (let total = total_cost self
      in [item_name self @ '' '' @ show_int (item_quantity self) @ '' @ $''
            @ show_int (py_int (item_price self)) @ '' = $'' @ show_int (py_int total)])"

definition print_item_description :: "ItemToPurchase \<Rightarrow> string list" where
  "print_item_description self = [item_name self @ '': '' @ item_description self]"

subsection \<open>The validated update\<close>

text \<open>
  \<open>update\<close> assigns to the fields of the object as it goes and may raise in the middle.
  A call therefore yields the item as the call leaves it, together with the exception it
  raised, if any. The four \<open>if ... is not None\<close> blocks of the method run in sequence;
  a block that raises ends the call.
\<close>

datatype error = ValueError string

type_synonym item_action = "ItemToPurchase \<Rightarrow> ItemToPurchase \<times> error option"

definition seq :: "item_action \<Rightarrow> item_action \<Rightarrow> item_action" where
  "seq f g self = (case f self of (self', Some e) \<Rightarrow> (self', Some e) | (self', None) \<Rightarrow> g self')"


definition update_name :: "string option \<Rightarrow> item_action" where
  "update_name name self =
     (case name of
        None \<Rightarrow> (self, None)
      | Some n \<Rightarrow>
          (let n' = strip n
           in if n' = [] then (self, Some (ValueError ''Item name cannot be empty.''))
              else (self\<lparr>item_name := n'\<rparr>, None)))"

definition update_description :: "string option \<Rightarrow> item_action" where
  "update_description description self =
     (case description of
        None \<Rightarrow> (self, None)
      | Some d \<Rightarrow>
          (let d' = strip d
           in if d' = [] then (self, Some (ValueError ''Item description cannot be empty.''))
              else (self\<lparr>item_description := d'\<rparr>, None)))"

text \<open>
  Module8 converts the price with \<open>float\<close> before the sign test and Module6 after it;
  on numbers both give the same result.
\<close>

definition update_price :: "pynum option \<Rightarrow> item_action" where
  "update_price price self =
     (case price of
        None \<Rightarrow> (self, None)
      | Some p \<Rightarrow>
          (let p' = py_float p
           in if p' < 0 then (self, Some (ValueError ''Item price cannot be negative.''))
              else (self\<lparr>item_price := p'\<rparr>, None)))"

text \<open>A \<open>PFloat\<close> argument is the case \<open>not isinstance(quantity, int)\<close>.\<close>

definition update_quantity :: "pynum option \<Rightarrow> item_action" where
  "update_quantity quantity self =
     (case quantity of
        None \<Rightarrow> (self, None)
      | Some (PFloat r) \<Rightarrow> (self, Some (ValueError ''Item quantity must be a whole number.''))
      | Some (PInt q) \<Rightarrow>
          (if q < 0 then (self, Some (ValueError ''Item quantity cannot be negative.''))
           else (self\<lparr>item_quantity := q\<rparr>, None)))"

definition update :: "string option \<Rightarrow> string option \<Rightarrow> pynum option \<Rightarrow> pynum option \<Rightarrow> item_action" where
  "update name description price quantity =
     seq (update_name name)
       (seq (update_description description)
          (seq (update_price price) (update_quantity quantity)))"

section \<open>ShoppingCart\<close>

record ShoppingCart =
  customer_name :: string
  current_date :: string
  cart_items :: "ItemToPurchase list"

definition add_item :: "ItemToPurchase \<Rightarrow> ShoppingCart \<Rightarrow> ShoppingCart" where
  "add_item item_to_purchase self = self\<lparr>cart_items := cart_items self @ [item_to_purchase]\<rparr>"

text \<open>
  The scan shared by \<open>remove_item\<close> and \<open>modify_item\<close>: the index of the first item whose
  lowercased name is \<open>name\<close>, if there is one.
\<close>

fun first_match :: "string \<Rightarrow> ItemToPurchase list \<Rightarrow> nat option" where
  "first_match name [] = None"
| "first_match name (it # its) =
     (if lower (item_name it) = name then Some 0 else map_option Suc (first_match name its))"

text \<open>
  The cart operations that print return the new cart and the lines printed.
  \<open>del self.cart_items[i]\<close> drops the element at index \<open>i\<close>.
\<close>

definition remove_item :: "string \<Rightarrow> ShoppingCart \<Rightarrow> ShoppingCart \<times> string list" where
  "remove_item item_name' self =
     (let name = lower (strip item_name')
      in case first_match name (cart_items self) of
           Some i \<Rightarrow> (self\<lparr>cart_items := take i (cart_items self) @ drop (Suc i) (cart_items self)\<rparr>, [])
         | None \<Rightarrow> (self, [''Item not found in cart. Nothing removed.'']))"



text \<open>\<open>sum\<close> adds the elements to 0 from left to right.\<close>

definition py_sum :: "'a::monoid_add list \<Rightarrow> 'a" where
  "py_sum xs = foldl (+) 0 xs"

definition get_num_items_in_cart :: "ShoppingCart \<Rightarrow> int" where
  "get_num_items_in_cart self = py_sum (map (\<lambda>it. max 0 (item_quantity it)) (cart_items self))"

definition get_cost_of_cart :: "ShoppingCart \<Rightarrow> rat" where
  "get_cost_of_cart self = py_sum (map total_cost (cart_items self))"

definition cart_header :: "ShoppingCart \<Rightarrow> string" where
  "cart_header self = customer_name self @ [CHR 0x27] @ ''s Shopping Cart - '' @ current_date self"

definition print_total :: "ShoppingCart \<Rightarrow> string list" where
  "print_total self =
     (let num_items = get_num_items_in_cart self
      in [cart_header self, ''Number of Items: '' @ show_int num_items]
           @ (if num_items = 0 then [''SHOPPING CART IS EMPTY'']
              else concat (map print_item_cost (cart_items self))
                     @ [''Total: $'' @ money_str (get_cost_of_cart self)]))"

text \<open>Module6-Portfolio.py: the same, with the amounts printed through \<open>int\<close>.\<close>

definition print_total_m6 :: "ShoppingCart \<Rightarrow> string list" where
  "print_total_m6 self =
     (let num_items = get_num_items_in_cart self
      in [cart_header self, ''Number of Items: '' @ show_int num_items]
           @ (if num_items = 0 then [''SHOPPING CART IS EMPTY'']
              else concat (map print_item_cost_m6 (cart_items self))
                     @ [''Total: $'' @ show_int (py_int (get_cost_of_cart self))]))"

definition print_descriptions :: "ShoppingCart \<Rightarrow> string list" where
  "print_descriptions self =
     [cart_header self, ''Item Descriptions'']
       @ concat (map print_item_description (cart_items self))"

section \<open>Properties of the spec, as predicates\<close>

text \<open>The invariant of the data model: price and quantity are not negative.\<close>

definition item_inv :: "ItemToPurchase \<Rightarrow> bool" where
  "item_inv it = (0 \<le> item_price it \<and> 0 \<le> item_quantity it)"

definition cart_inv :: "ShoppingCart \<Rightarrow> bool" where
  "cart_inv c = list_all item_inv (cart_items c)"





text \<open>
  What \<open>update\<close> accepts: a name or a description that is absent or not empty once
  trimmed, a price that is absent or not negative, a quantity that is absent or an int
  that is not negative.
\<close>

definition text_valid :: "string option \<Rightarrow> bool" where
  "text_valid t = (case t of None \<Rightarrow> True | Some n \<Rightarrow> strip n \<noteq> [])"

definition price_valid :: "pynum option \<Rightarrow> bool" where
  "price_valid price = (case price of None \<Rightarrow> True | Some p \<Rightarrow> 0 \<le> py_float p)"

definition quantity_valid :: "pynum option \<Rightarrow> bool" where
  "quantity_valid quantity =
     (case quantity of None \<Rightarrow> True | Some (PInt q) \<Rightarrow> 0 \<le> q | Some (PFloat r) \<Rightarrow> False)"

text \<open>The assignment of one supplied field, by itself.\<close>

definition with_name :: "string option \<Rightarrow> ItemToPurchase \<Rightarrow> ItemToPurchase" where
  "with_name name self = (case name of None \<Rightarrow> self | Some n \<Rightarrow> self\<lparr>item_name := strip n\<rparr>)"

definition with_description :: "string option \<Rightarrow> ItemToPurchase \<Rightarrow> ItemToPurchase" where
  "with_description description self =
     (case description of None \<Rightarrow> self | Some d \<Rightarrow> self\<lparr>item_description := strip d\<rparr>)"

definition with_price :: "pynum option \<Rightarrow> ItemToPurchase \<Rightarrow> ItemToPurchase" where
  "with_price price self = (case price of None \<Rightarrow> self | Some p \<Rightarrow> self\<lparr>item_price := py_float p\<rparr>)"

definition with_quantity :: "pynum option \<Rightarrow> ItemToPurchase \<Rightarrow> ItemToPurchase" where
  "with_quantity quantity self =
     (case quantity of Some (PInt q) \<Rightarrow> self\<lparr>item_quantity := q\<rparr> | _ \<Rightarrow> self)"






section \<open>Basic facts\<close>

lemma py_sum_acc: "foldl (+) a xs = a + sum_list xs" for a :: "'a::monoid_add"
  by (induction xs arbitrary: a) (simp_all add: add.assoc)

lemma py_sum_sum_list: "py_sum xs = sum_list xs"
  by (simp add: py_sum_def py_sum_acc)

subsection \<open>What a call of \<open>update\<close> returns\<close>

lemma update_name_result:
  "update_name name self =
     (if text_valid name then (with_name name self, None)
      else (self, Some (ValueError ''Item name cannot be empty.'')))"
  by (simp add: update_name_def text_valid_def with_name_def Let_def split: option.splits)

lemma update_description_result:
  "update_description d self =
     (if text_valid d then (with_description d self, None)
      else (self, Some (ValueError ''Item description cannot be empty.'')))"
  by (simp add: update_description_def text_valid_def with_description_def Let_def split: option.splits)

lemma update_price_result:
  "update_price p self =
     (if price_valid p then (with_price p self, None)
      else (self, Some (ValueError ''Item price cannot be negative.'')))"
  by (simp add: update_price_def price_valid_def with_price_def Let_def not_le split: option.splits)

lemma update_quantity_result:
  "update_quantity q self =
     (if quantity_valid q then (with_quantity q self, None)
      else (self, Some (ValueError (case q of
              Some (PFloat r) \<Rightarrow> ''Item quantity must be a whole number.''
            | _ \<Rightarrow> ''Item quantity cannot be negative.''))))"
  by (simp add: update_quantity_def quantity_valid_def with_quantity_def Let_def not_le
      split: option.splits pynum.splits)

lemma update_result:
  "update name description price quantity self =
     (if \<not> text_valid name then (self, Some (ValueError ''Item name cannot be empty.''))
      else if \<not> text_valid description
        then (with_name name self, Some (ValueError ''Item description cannot be empty.''))
      else if \<not> price_valid price
        then (with_description description (with_name name self),
              Some (ValueError ''Item price cannot be negative.''))
      else if \<not> quantity_valid quantity
        then (with_price price (with_description description (with_name name self)),
              Some (ValueError (case quantity of
                Some (PFloat r) \<Rightarrow> ''Item quantity must be a whole number.''
              | _ \<Rightarrow> ''Item quantity cannot be negative.'')))
      else (with_quantity quantity (with_price price (with_description description (with_name name self))),
            None))"
  by (simp add: update_def seq_def update_name_result update_description_result
      update_price_result update_quantity_result)



subsection \<open>The lookup by name\<close>

lemma first_match_Some:
  "first_match k xs = Some i \<Longrightarrow>
     i < length xs \<and> lower (item_name (xs ! i)) = k \<and> (\<forall>j<i. lower (item_name (xs ! j)) \<noteq> k)"
proof (induction xs arbitrary: i)
  case Nil
  then show ?case by simp
next
  case (Cons x xs)
  show ?case
  proof (cases "lower (item_name x) = k")
    case True
    with Cons.prems show ?thesis by simp
  next
    case False
    with Cons.prems obtain i' where i': "first_match k xs = Some i'" "i = Suc i'"
      by auto
    from Cons.IH [OF i'(1)] False i'(2) show ?thesis
      by (auto simp: less_Suc_eq_0_disj)
  qed
qed

lemma first_match_None:
  "first_match k xs = None \<longleftrightarrow> (\<forall>it \<in> set xs. lower (item_name it) \<noteq> k)"
  by (induction xs) auto



subsection \<open>The invariant, step by step\<close>






subsection \<open>Rendered numbers\<close>













section \<open>Item total\<close>



section \<open>Item count\<close>

text \<open>
  Claim C6. \<open>get_num_items_in_cart\<close> is the sum of the quantities of all items, a
  negative quantity counting as 0; it is not the number of entries: a cart with one item
  of quantity 5 and one of quantity 3 has count 8, with 2 entries.
\<close>

theorem get_num_items_in_cart_sum:
  "get_num_items_in_cart c
     = (\<Sum>it\<leftarrow>cart_items c. if item_quantity it < 0 then 0 else item_quantity it)
   \<and> 0 \<le> get_num_items_in_cart c
   \<and> get_num_items_in_cart
       \<lparr>customer_name = n, current_date = d,
        cart_items = [new_ItemToPurchase ''pen'' 1 5 ''blue'', new_ItemToPurchase ''ink'' 2 3 ''black'']\<rparr> = 8
   \<and> int (length [new_ItemToPurchase ''pen'' 1 5 ''blue'', new_ItemToPurchase ''ink'' 2 3 ''black'']) = 2"
proof -
  have m: "(\<lambda>it. max 0 (item_quantity it)) = (\<lambda>it. if item_quantity it < 0 then 0 else item_quantity it)"
    by (auto simp: max_def)
  have eq: "get_num_items_in_cart c
     = (\<Sum>it\<leftarrow>cart_items c. if item_quantity it < 0 then 0 else item_quantity it)" for c
    by (simp add: get_num_items_in_cart_def py_sum_sum_list m)
  have "0 \<le> (\<Sum>it\<leftarrow>xs. if item_quantity it < 0 then 0 else item_quantity it)" for xs :: "ItemToPurchase list"
    by (induction xs) auto
  then have nonneg: "0 \<le> get_num_items_in_cart c"
    by (simp add: eq)
  show ?thesis
    using nonneg by (simp add: eq new_ItemToPurchase_def)
qed

theorem get_num_items_in_cart_sum_witness:
  "get_num_items_in_cart
     \<lparr>customer_name = ''Ann'', current_date = ''May 1'',
      cart_items = [new_ItemToPurchase ''pen'' 1 5 ''blue'', new_ItemToPurchase ''ink'' 2 (- 3) ''black'']\<rparr> = 5"
  using get_num_items_in_cart_sum [of
      "\<lparr>customer_name = ''Ann'', current_date = ''May 1'',
        cart_items = [new_ItemToPurchase ''pen'' 1 5 ''blue'', new_ItemToPurchase ''ink'' 2 (- 3) ''black'']\<rparr>"]
  by (simp add: new_ItemToPurchase_def)

section \<open>The validated update of an item\<close>

text \<open>
  Claim C1, as amended. When a supplied field is invalid (a name or description that is
  empty once trimmed, a negative price, a quantity that is not an int or is negative),
  \<open>update\<close> raises a \<open>ValueError\<close>. The fields are checked and assigned in the order
  name, description, price, quantity: the first invalid field and the fields after it keep
  their values, and the supplied fields before it have been assigned. So the quantity never
  changes in a failing call, and the item is unchanged when the name is the invalid field.
\<close>

theorem update_fails_at_first_invalid:
  assumes "\<not> (text_valid name \<and> text_valid description \<and> price_valid price \<and> quantity_valid quantity)"
  shows "(\<exists>msg. snd (update name description price quantity self) = Some (ValueError msg))
    \<and> fst (update name description price quantity self) =
        (if \<not> text_valid name then self
         else if \<not> text_valid description then with_name name self
         else if \<not> price_valid price then with_description description (with_name name self)
         else with_price price (with_description description (with_name name self)))
    \<and> item_quantity (fst (update name description price quantity self)) = item_quantity self
    \<and> (\<not> price_valid price \<longrightarrow>
          item_price (fst (update name description price quantity self)) = item_price self)
    \<and> (\<not> text_valid description \<longrightarrow>
          item_description (fst (update name description price quantity self)) = item_description self
          \<and> item_price (fst (update name description price quantity self)) = item_price self)
    \<and> (\<not> text_valid name \<longrightarrow> fst (update name description price quantity self) = self)"
  using assms
  by (auto simp: update_result with_name_def with_description_def with_price_def
      split: option.splits)

theorem update_fails_at_first_invalid_witness:
  "\<not> (text_valid (Some '' ink '') \<and> text_valid (Some '' '') \<and> price_valid (Some (PFloat 3))
        \<and> quantity_valid (Some (PFloat (1 / 2))))
   \<and> fst (update (Some '' ink '') (Some '' '') (Some (PFloat 3)) (Some (PFloat (1 / 2)))
            (new_ItemToPurchase ''pen'' 2 4 ''blue''))
       = new_ItemToPurchase ''ink'' 2 4 ''blue''
   \<and> (\<exists>msg. snd (update (Some '' ink '') (Some '' '') (Some (PFloat 3)) (Some (PFloat (1 / 2)))
            (new_ItemToPurchase ''pen'' 2 4 ''blue'')) = Some (ValueError msg))"
proof -
  have n: "text_valid (Some '' ink '')" and d: "\<not> text_valid (Some '' '')"
    by code_simp+
  have w: "with_name (Some '' ink '') (new_ItemToPurchase ''pen'' 2 4 ''blue'')
      = new_ItemToPurchase ''ink'' 2 4 ''blue''"
    by code_simp
  from d have h: "\<not> (text_valid (Some '' ink '') \<and> text_valid (Some '' '') \<and> price_valid (Some (PFloat 3))
        \<and> quantity_valid (Some (PFloat (1 / 2))))"
    by simp
  from update_fails_at_first_invalid [OF h, where self = "new_ItemToPurchase ''pen'' 2 4 ''blue''"]
  show ?thesis
    using n d w by simp
qed

text \<open>
  The call \<open>update(name="x", price=-1)\<close> fails and has renamed the item.
\<close>

theorem update_partial_counterexample:
  "\<not> price_valid (Some (PInt (- 1)))
   \<and> update (Some ''x'') None (Some (PInt (- 1))) None (new_ItemToPurchase ''pen'' 2 4 ''blue'')
       = (new_ItemToPurchase ''x'' 2 4 ''blue'', Some (ValueError ''Item price cannot be negative.''))
   \<and> new_ItemToPurchase ''x'' 2 4 ''blue'' \<noteq> new_ItemToPurchase ''pen'' 2 4 ''blue''"
  by code_simp

section \<open>Removing an item\<close>

text \<open>
  Claim C5, as amended. \<open>remove_item\<close> trims the given name and compares it, lowercased,
  with each stored name lowercased. If some item matches, it removes the first one and keeps
  every other item, later duplicates too, in order, and prints nothing. If none matches,
  as in an empty cart, the cart is unchanged and the not-found line is printed. The
  operation returns in every case.
\<close>

theorem remove_item_first_match:
  "((\<exists>it \<in> set (cart_items c). lower (item_name it) = lower (strip n)) \<longrightarrow>
      (\<exists>i < length (cart_items c).
          lower (item_name (cart_items c ! i)) = lower (strip n)
          \<and> (\<forall>j<i. lower (item_name (cart_items c ! j)) \<noteq> lower (strip n))
          \<and> remove_item n c = (c\<lparr>cart_items := take i (cart_items c) @ drop (Suc i) (cart_items c)\<rparr>, [])))
   \<and> ((\<forall>it \<in> set (cart_items c). lower (item_name it) \<noteq> lower (strip n)) \<longrightarrow>
        remove_item n c = (c, [''Item not found in cart. Nothing removed.'']))
   \<and> (cart_items c = [] \<longrightarrow> remove_item n c = (c, [''Item not found in cart. Nothing removed.'']))"
proof (cases "first_match (lower (strip n)) (cart_items c)")
  case None
  then have no: "\<forall>it \<in> set (cart_items c). lower (item_name it) \<noteq> lower (strip n)"
    by (simp add: first_match_None)
  from None have "remove_item n c = (c, [''Item not found in cart. Nothing removed.''])"
    by (simp add: remove_item_def)
  with no show ?thesis by auto
next
  case (Some i)
  from first_match_Some [OF Some]
  have i: "i < length (cart_items c)" "lower (item_name (cart_items c ! i)) = lower (strip n)"
    "\<forall>j<i. lower (item_name (cart_items c ! j)) \<noteq> lower (strip n)"
    by auto
  from Some have r: "remove_item n c = (c\<lparr>cart_items := take i (cart_items c) @ drop (Suc i) (cart_items c)\<rparr>, [])"
    by (simp add: remove_item_def)
  from i(1,2) have ex: "\<exists>it \<in> set (cart_items c). lower (item_name it) = lower (strip n)"
    using nth_mem by blast
  from i(1) have ne: "cart_items c \<noteq> []" by auto
  from i r ex ne show ?thesis by blast
qed

theorem remove_item_first_match_witness:
  "lower (item_name (new_ItemToPurchase ''pen'' 2 4 ''blue'')) = lower (strip '' Pen'')
   \<and> remove_item '' Pen''
        \<lparr>customer_name = ''Ann'', current_date = ''May 1'',
         cart_items = [new_ItemToPurchase ''Pencil'' 1 12 ''wooden'', new_ItemToPurchase ''pen'' 2 4 ''blue'',
           new_ItemToPurchase ''PEN'' 3 1 ''red'']\<rparr>
     = (\<lparr>customer_name = ''Ann'', current_date = ''May 1'',
         cart_items = [new_ItemToPurchase ''Pencil'' 1 12 ''wooden'', new_ItemToPurchase ''PEN'' 3 1 ''red'']\<rparr>, [])
   \<and> lower (item_name (new_ItemToPurchase ''Pencil'' 1 12 ''wooden'')) \<noteq> lower (strip ''ink'')
   \<and> remove_item ''ink''
        \<lparr>customer_name = ''Ann'', current_date = ''May 1'',
         cart_items = [new_ItemToPurchase ''Pencil'' 1 12 ''wooden'']\<rparr>
     = (\<lparr>customer_name = ''Ann'', current_date = ''May 1'',
         cart_items = [new_ItemToPurchase ''Pencil'' 1 12 ''wooden'']\<rparr>,
        [''Item not found in cart. Nothing removed.''])"
proof -
  let ?c = "\<lparr>customer_name = ''Ann'', current_date = ''May 1'',
         cart_items = [new_ItemToPurchase ''Pencil'' 1 12 ''wooden'', new_ItemToPurchase ''pen'' 2 4 ''blue'',
           new_ItemToPurchase ''PEN'' 3 1 ''red'']\<rparr>"
  let ?d = "\<lparr>customer_name = ''Ann'', current_date = ''May 1'',
         cart_items = [new_ItemToPurchase ''Pencil'' 1 12 ''wooden'']\<rparr>"
  have k: "lower (item_name (new_ItemToPurchase ''Pencil'' 1 12 ''wooden'')) \<noteq> lower (strip '' Pen'')"
    "lower (item_name (new_ItemToPurchase ''pen'' 2 4 ''blue'')) = lower (strip '' Pen'')"
    "lower (item_name (new_ItemToPurchase ''Pencil'' 1 12 ''wooden'')) \<noteq> lower (strip ''ink'')"
    by code_simp+
  from k(2) have ex: "\<exists>it \<in> set (cart_items ?c). lower (item_name it) = lower (strip '' Pen'')"
    by simp
  from remove_item_first_match [of ?c "'' Pen''"] ex
  obtain i where i: "i < length (cart_items ?c)"
    "lower (item_name (cart_items ?c ! i)) = lower (strip '' Pen'')"
    "\<forall>j<i. lower (item_name (cart_items ?c ! j)) \<noteq> lower (strip '' Pen'')"
    "remove_item '' Pen'' ?c = (?c\<lparr>cart_items := take i (cart_items ?c) @ drop (Suc i) (cart_items ?c)\<rparr>, [])"
    by blast
  have "i = 1"
  proof (rule ccontr)
    assume "i \<noteq> 1"
    with i(1) have "i = 0 \<or> i = 2"
      by (simp add: less_Suc_eq numeral_3_eq_3) arith
    then show False
    proof
      assume "i = 0"
      with i(2) k(1) show False
        by simp
    next
      assume "i = 2"
      then have "(1::nat) < i"
        by simp
      with i(3) have "lower (item_name (cart_items ?c ! 1)) \<noteq> lower (strip '' Pen'')"
        by blast
      with k(2) show False
        by simp
    qed
  qed
  with i(4) have a: "remove_item '' Pen'' ?c = (\<lparr>customer_name = ''Ann'', current_date = ''May 1'',
         cart_items = [new_ItemToPurchase ''Pencil'' 1 12 ''wooden'', new_ItemToPurchase ''PEN'' 3 1 ''red'']\<rparr>, [])"
    by simp
  from k(3) have no: "\<forall>it \<in> set (cart_items ?d). lower (item_name it) \<noteq> lower (strip ''ink'')"
    by simp
  from remove_item_first_match [of ?d "''ink''"] no
  have b: "remove_item ''ink'' ?d = (?d, [''Item not found in cart. Nothing removed.''])"
    by blast
  from k(2) a k(3) b show ?thesis
    by (intro conjI)
qed

text \<open>
  The stored name \<open>Pencil\<close> and the given name \<open>Pencil\<close> followed by a space differ,
  also when case is ignored; the item is removed all the same.
\<close>

theorem remove_item_trims_counterexample:
  "lower ''Pencil'' \<noteq> lower ''Pencil ''
   \<and> remove_item ''Pencil ''
        \<lparr>customer_name = ''Ann'', current_date = ''May 1'',
         cart_items = [new_ItemToPurchase ''Pencil'' 1 12 ''wooden'']\<rparr>
      = (\<lparr>customer_name = ''Ann'', current_date = ''May 1'', cart_items = []\<rparr>, [])"
  by code_simp

section \<open>Modifying an item\<close>






section \<open>The invariant of prices and quantities\<close>



section \<open>Rendering of amounts\<close>




section \<open>The summary of a cart without quantity\<close>

text \<open>
  Claim C9. When the quantities of the items, each negative one counted as 0, add up to 0,
  \<open>print_total\<close> prints the header, the count 0 and the line \<open>SHOPPING CART IS EMPTY\<close>,
  and nothing else: no item line and no total, also when the cart holds items. This is so
  in Module8-Portfolio.py and in Module6-Portfolio.py.
\<close>

theorem print_total_empty:
  assumes "(\<Sum>it\<leftarrow>cart_items c. max 0 (item_quantity it)) = 0"
  shows "print_total c = [cart_header c, ''Number of Items: 0'', ''SHOPPING CART IS EMPTY'']
    \<and> print_total_m6 c = [cart_header c, ''Number of Items: 0'', ''SHOPPING CART IS EMPTY'']"
proof -
  from assms have z: "get_num_items_in_cart c = 0"
    by (simp add: get_num_items_in_cart_def py_sum_sum_list)
  have s: "show_int 0 = ''0''"
    by (simp add: show_int_def show_nat.simps digit_char_def)
  show ?thesis
    by (simp add: print_total_def print_total_m6_def z s)
qed

theorem print_total_empty_witness:
  "(\<Sum>it\<leftarrow>cart_items \<lparr>customer_name = ''Ann'', current_date = ''May 1'',
        cart_items = [new_ItemToPurchase ''pen'' 2 0 ''blue'', new_ItemToPurchase ''ink'' 5 (- 1) ''black'']\<rparr>.
       max 0 (item_quantity it)) = 0
   \<and> print_total \<lparr>customer_name = ''Ann'', current_date = ''May 1'',
        cart_items = [new_ItemToPurchase ''pen'' 2 0 ''blue'', new_ItemToPurchase ''ink'' 5 (- 1) ''black'']\<rparr>
     = [''Ann'' @ [CHR 0x27] @ ''s Shopping Cart - May 1'', ''Number of Items: 0'',
        ''SHOPPING CART IS EMPTY'']
   \<and> print_total_m6 \<lparr>customer_name = ''Ann'', current_date = ''May 1'',
        cart_items = [new_ItemToPurchase ''pen'' 2 0 ''blue'', new_ItemToPurchase ''ink'' 5 (- 1) ''black'']\<rparr>
     = [''Ann'' @ [CHR 0x27] @ ''s Shopping Cart - May 1'', ''Number of Items: 0'',
        ''SHOPPING CART IS EMPTY'']"
proof -
  let ?c = "\<lparr>customer_name = ''Ann'', current_date = ''May 1'',
        cart_items = [new_ItemToPurchase ''pen'' 2 0 ''blue'', new_ItemToPurchase ''ink'' 5 (- 1) ''black'']\<rparr>"
  have h: "(\<Sum>it\<leftarrow>cart_items ?c. max 0 (item_quantity it)) = 0"
    by (simp add: new_ItemToPurchase_def)
  have k: "cart_header ?c = ''Ann'' @ [CHR 0x27] @ ''s Shopping Cart - May 1''"
    by (simp add: cart_header_def)
  from print_total_empty [OF h] h show ?thesis
    unfolding k by (intro conjI) blast+
qed

section \<open>Construction and insertion\<close>

text \<open>
  Claim C10. The constructor stores its four arguments as given, whatever they are, and
  \<open>add_item\<close> returns the cart with the item appended as its last element, the items
  before it and the name and date of the cart as they were. Neither checks anything: an
  item built with a negative price or quantity enters the cart and breaks the invariant,
  while \<open>update\<close> rejects the same values.
\<close>

theorem add_item_appends_unvalidated:
  "new_ItemToPurchase n p q d = \<lparr>item_name = n, item_price = p, item_quantity = q, item_description = d\<rparr>
   \<and> cart_items (add_item it c) = cart_items c @ [it]
   \<and> last (cart_items (add_item it c)) = it
   \<and> butlast (cart_items (add_item it c)) = cart_items c
   \<and> customer_name (add_item it c) = customer_name c
   \<and> current_date (add_item it c) = current_date c
   \<and> (p < 0 \<or> q < 0 \<longrightarrow> \<not> cart_inv (add_item (new_ItemToPurchase n p q d) c))
   \<and> (p < 0 \<longrightarrow> update None None (Some (PFloat p)) None it = (it, Some (ValueError ''Item price cannot be negative.'')))
   \<and> (q < 0 \<longrightarrow> update None None None (Some (PInt q)) it = (it, Some (ValueError ''Item quantity cannot be negative.'')))"
  by (auto simp: new_ItemToPurchase_def add_item_def cart_inv_def item_inv_def update_result
      text_valid_def price_valid_def quantity_valid_def with_name_def with_description_def with_price_def)

theorem add_item_appends_unvalidated_witness:
  "cart_items (add_item (new_ItemToPurchase ''pen'' (- 1) (- 2) ''blue'')
        \<lparr>customer_name = ''Ann'', current_date = ''May 1'',
         cart_items = [new_ItemToPurchase ''ink'' 5 1 ''black'']\<rparr>)
     = [new_ItemToPurchase ''ink'' 5 1 ''black'', new_ItemToPurchase ''pen'' (- 1) (- 2) ''blue'']
   \<and> \<not> cart_inv (add_item (new_ItemToPurchase ''pen'' (- 1) (- 2) ''blue'')
        \<lparr>customer_name = ''Ann'', current_date = ''May 1'',
         cart_items = [new_ItemToPurchase ''ink'' 5 1 ''black'']\<rparr>)
   \<and> update None None (Some (PFloat (- 1))) None (new_ItemToPurchase ''ink'' 5 1 ''black'')
     = (new_ItemToPurchase ''ink'' 5 1 ''black'', Some (ValueError ''Item price cannot be negative.''))"
proof -
  let ?c = "\<lparr>customer_name = ''Ann'', current_date = ''May 1'',
         cart_items = [new_ItemToPurchase ''ink'' 5 1 ''black'']\<rparr>"
  let ?it = "new_ItemToPurchase ''pen'' (- 1) (- 2) ''blue''"
  have n: "(- 1 :: rat) < 0"
    by simp
  from add_item_appends_unvalidated [of "''pen''" "- 1" "- 2" "''blue''" ?it ?c]
  have "cart_items (add_item ?it ?c) = cart_items ?c @ [?it]"
    by blast
  then have a: "cart_items (add_item ?it ?c) = [new_ItemToPurchase ''ink'' 5 1 ''black'', ?it]"
    by simp
  from add_item_appends_unvalidated [of "''pen''" "- 1" "- 2" "''blue''" ?it ?c] n
  have b: "\<not> cart_inv (add_item ?it ?c)"
    by blast
  from add_item_appends_unvalidated [of "''pen''" "- 1" "- 2" "''blue''"
      "new_ItemToPurchase ''ink'' 5 1 ''black''" ?c] n
  have c: "update None None (Some (PFloat (- 1))) None (new_ItemToPurchase ''ink'' 5 1 ''black'')
     = (new_ItemToPurchase ''ink'' 5 1 ''black'', Some (ValueError ''Item price cannot be negative.''))"
    by blast
  from a b c show ?thesis
    by (intro conjI)
qed

end
